theory Spec2Isabelle
  imports Main
begin

section \<open>QR attendance sessions of \<^verbatim>\<open>database.py\<close>\<close>

text \<open>
  The three functions \<^verbatim>\<open>create_qr_session\<close>, \<^verbatim>\<open>redeem_qr_code\<close> and
  \<^verbatim>\<open>deactivate_qr_session\<close> (with the helper \<^verbatim>\<open>mark_single_student_present\<close>)
  each open a connection, run a few SQL statements in one transaction and commit or roll
  back. The embedding passes the committed database in and out, and lists the calls made
  on the connection in a trace.
\<close>

subsection \<open>Tables\<close>

text \<open>
  A \<^verbatim>\<open>datetime\<close> is its distance in microseconds from 0001-01-01 00:00:00
  (\<^verbatim>\<open>datetime.min\<close>), so that comparison and the addition of a
  \<^verbatim>\<open>timedelta\<close> are integer arithmetic.
\<close>

type_synonym datetime = int

text \<open>
  \<^verbatim>\<open>attendance_sessions (id SERIAL, section_id INTEGER, session_uuid TEXT UNIQUE NOT NULL,
  created_at, expires_at TIMESTAMP NOT NULL, is_active BOOLEAN)\<close>. The column
  \<^verbatim>\<open>section_id\<close> is nullable. \<^verbatim>\<open>created_at\<close> is filled by the server and read by
  no statement; it is left out, as are the serial ids and \<^verbatim>\<open>scanned_at\<close> of the other
  two tables.
\<close>

record attendance_session =
  s_id :: nat
  s_section_id :: "nat option"
  s_session_uuid :: string
  s_expires_at :: datetime
  s_is_active :: bool

text \<open>\<^verbatim>\<open>qr_scans (session_id, student_id, UNIQUE(session_id, student_id))\<close>\<close>

record qr_scan =
  q_session_id :: nat
  q_student_id :: nat

text \<open>
  \<^verbatim>\<open>attendance (student_id, section_id, semester_id, date DATE, status TEXT,
  UNIQUE(student_id, section_id, date))\<close>. The date is kept as the string the code
  sends (\<^verbatim>\<open>'%Y-%m-%d'\<close>).
\<close>

record attendance_row =
  a_student_id :: nat
  a_section_id :: "nat option"
  a_semester_id :: nat
  a_date :: string
  a_status :: string

record db =
  attendance_sessions :: "attendance_session list"
  qr_scans :: "qr_scan list"
  attendance :: "attendance_row list"
  sessions_id_seq :: nat

subsection \<open>Environment of one call\<close>

text \<open>
  What a call reads from outside the database: whether \<^verbatim>\<open>get_db_connection\<close> obtains
  a connection, the two readings of \<^verbatim>\<open>datetime.now()\<close> (in the function body and in
  \<^verbatim>\<open>mark_single_student_present\<close>), the library's \<^verbatim>\<open>strftime\<close>, the value of
  \<^verbatim>\<open>str(uuid.uuid4())\<close> (32 hexadecimal digits and four dashes), and for every
  statement whether the store raises an error other than a uniqueness conflict when it is
  executed. \<^verbatim>\<open>conn.cursor()\<close>,
  \<^verbatim>\<open>conn.rollback()\<close> and the two \<^verbatim>\<open>close()\<close> calls are taken not to raise.
\<close>

record env =
  connect_ok :: bool
  now :: datetime
  now_mark :: datetime
  strftime :: "string \<Rightarrow> datetime \<Rightarrow> string"
  uuid4 :: string
  select_raises :: bool
  update_raises :: bool
  insert_session_raises :: bool
  insert_scan_raises :: bool
  upsert_raises :: bool
  commit_raises :: bool

datatype exn = OperationalError | UniqueViolation | ValueError | StoreError

datatype call =
  Connect | SelectSession | DeactivateSection | InsertSession | InsertScan
  | UpsertAttendance | DeactivateToken | Commit | Rollback | Close

datatype ret = Ok | Raised exn

type_synonym trace = "(call \<times> ret) list"

text \<open>
  How control leaves a function: it returns a value, or \<^verbatim>\<open>get_db_connection\<close> has
  stopped the script (\<^verbatim>\<open>st.error\<close>, \<^verbatim>\<open>st.stop()\<close>), or an exception raised
  outside the \<^verbatim>\<open>try\<close> block escapes.
\<close>

datatype 'a control = Returns 'a | Stops | Raises

text \<open>SQL equality: a comparison with NULL is never true.\<close>

definition sql_eq :: "nat option \<Rightarrow> nat option \<Rightarrow> bool" where
  "sql_eq a b = (case a of None \<Rightarrow> False | Some x \<Rightarrow> (case b of None \<Rightarrow> False | Some y \<Rightarrow> x = y))"

subsection \<open>\<^verbatim>\<open>mark_single_student_present\<close>\<close>

definition att_conflict :: "nat \<Rightarrow> nat option \<Rightarrow> string \<Rightarrow> attendance_row \<Rightarrow> bool" where
  "att_conflict student_id section_id date_str r =
     (a_student_id r = student_id \<and> sql_eq (a_section_id r) section_id \<and> a_date r = date_str)"

text \<open>
  \<^verbatim>\<open>INSERT INTO attendance ... VALUES (.., 'Present') ON CONFLICT (student_id, section_id, date)
  DO UPDATE SET status = 'Present'\<close>
\<close>

definition upsert_present ::
  "attendance_row list \<Rightarrow> nat \<Rightarrow> nat option \<Rightarrow> nat \<Rightarrow> string \<Rightarrow> attendance_row list" where
  "upsert_present rows student_id section_id semester_id date_str =
     (if list_ex (att_conflict student_id section_id date_str) rows
      then map (\<lambda>r. if att_conflict student_id section_id date_str r
                     then r\<lparr>a_status := ''Present''\<rparr> else r) rows
      else rows @ [\<lparr>a_student_id = student_id, a_section_id = section_id,
                    a_semester_id = semester_id, a_date = date_str, a_status = ''Present''\<rparr>])"

text \<open>
  Runs inside the caller's transaction: takes and returns the working copy, with the
  trace entry of its one statement. \<^verbatim>\<open>None\<close> is the \<^verbatim>\<open>return None\<close> of the
  \<^verbatim>\<open>except\<close> branch.
\<close>

definition mark_single_student_present ::
  "env \<Rightarrow> db \<Rightarrow> nat \<Rightarrow> nat option \<Rightarrow> nat \<Rightarrow> string option \<times> db \<times> trace" where
  "mark_single_student_present e w student_id section_id semester_id =
     (let date_str = strftime e ''%Y-%m-%d'' (now_mark e) in
      if upsert_raises e then (None, w, [(UpsertAttendance, Raised StoreError)])
      else (Some date_str,
            w\<lparr>attendance := upsert_present (attendance w) student_id section_id semester_id date_str\<rparr>,
            [(UpsertAttendance, Ok)]))"

subsection \<open>\<^verbatim>\<open>redeem_qr_code\<close>\<close>

text \<open>
  A string parameter with a NUL character is refused by the driver before the statement
  is sent: \<^verbatim>\<open>cursor.execute\<close> raises \<^verbatim>\<open>ValueError\<close>.
\<close>

definition has_nul :: "string \<Rightarrow> bool" where
  "has_nul str = list_ex (\<lambda>c. c = CHR 0x00) str"

text \<open>
  \<^verbatim>\<open>SELECT id, section_id, expires_at, is_active FROM attendance_sessions WHERE
  session_uuid = %s\<close> followed by \<^verbatim>\<open>fetchone()\<close>. A \<^verbatim>\<open>TEXT\<close> column holds no
  NUL character, so no row matches a token that has one.
\<close>

definition find_session :: "db \<Rightarrow> string \<Rightarrow> attendance_session option" where
  "find_session d session_uuid =
     (if has_nul session_uuid then None
      else find (\<lambda>s. s_session_uuid s = session_uuid) (attendance_sessions d))"

definition scan_exists :: "db \<Rightarrow> nat \<Rightarrow> nat \<Rightarrow> bool" where
  "scan_exists d session_db_id student_id =
     list_ex (\<lambda>q. q_session_id q = session_db_id \<and> q_student_id q = student_id) (qr_scans d)"

text \<open>
  Python's \<^verbatim>\<open>if date_marked:\<close> on a value that is \<^verbatim>\<open>None\<close> or a string: false
  for \<^verbatim>\<open>None\<close> and for the empty string.
\<close>

definition truthy :: "string option \<Rightarrow> bool" where
  "truthy v = (case v of None \<Rightarrow> False | Some str \<Rightarrow> str \<noteq> [])"

definition the_str :: "string option \<Rightarrow> string" where
  "the_str v = (case v of None \<Rightarrow> ''None'' | Some str \<Rightarrow> str)"

text \<open>
  The result is what the caller gets, the committed database after the call, and the
  calls made on the connection. A rollback gives back the database the call started from.
\<close>

definition redeem_qr_code ::
  "env \<Rightarrow> db \<Rightarrow> string \<Rightarrow> nat \<Rightarrow> nat \<Rightarrow> (string \<times> string) control \<times> db \<times> trace" where
  "redeem_qr_code e d session_uuid student_id semester_id =
     (if \<not> connect_ok e then (Stops, d, [(Connect, Raised OperationalError)])
      else if has_nul session_uuid then
        (Returns (''error'', ''An unexpected error occurred.''), d,
         [(Connect, Ok), (SelectSession, Raised ValueError), (Rollback, Ok), (Close, Ok)])
      else if select_raises e then
        (Returns (''error'', ''An unexpected error occurred.''), d,
         [(Connect, Ok), (SelectSession, Raised StoreError), (Rollback, Ok), (Close, Ok)])
      else
        (case find_session d session_uuid of
           None \<Rightarrow>
             (Returns (''error'', ''Invalid QR Code. This session does not exist.''), d,
              [(Connect, Ok), (SelectSession, Ok), (Rollback, Ok), (Close, Ok)])
         | Some s \<Rightarrow>
             if now e > s_expires_at s then
               (Returns (''error'', ''QR Code has expired. This session ended at ''
                           @ strftime e ''%H:%M:%S'' (s_expires_at s) @ ''.''), d,
                [(Connect, Ok), (SelectSession, Ok), (Rollback, Ok), (Close, Ok)])
             else if \<not> s_is_active s then
               (Returns (''error'', ''This attendance session is no longer active.''), d,
                [(Connect, Ok), (SelectSession, Ok), (Rollback, Ok), (Close, Ok)])
             else if insert_scan_raises e then
               (Returns (''error'', ''An unexpected error occurred.''), d,
                [(Connect, Ok), (SelectSession, Ok), (InsertScan, Raised StoreError),
                 (Rollback, Ok), (Close, Ok)])
             else if scan_exists d (s_id s) student_id then
               (Returns (''info'', ''Attendance already marked for this session.''), d,
                [(Connect, Ok), (SelectSession, Ok), (InsertScan, Raised UniqueViolation),
                 (Rollback, Ok), (Close, Ok)])
             else
               (let w = d\<lparr>qr_scans := qr_scans d @ [\<lparr>q_session_id = s_id s, q_student_id = student_id\<rparr>]\<rparr>
                in case mark_single_student_present e w student_id (s_section_id s) semester_id of
                     (date_marked, w', t) \<Rightarrow>
                       if truthy date_marked then
                         if commit_raises e then
                           (Returns (''error'', ''An unexpected error occurred.''), d,
                            [(Connect, Ok), (SelectSession, Ok), (InsertScan, Ok)] @ t
                            @ [(Commit, Raised StoreError), (Rollback, Ok), (Close, Ok)])
                         else
                           (Returns (''success'', ''Attendance successfully marked for **''
                                        @ the_str date_marked @ ''**!''), w',
                            [(Connect, Ok), (SelectSession, Ok), (InsertScan, Ok)] @ t
                            @ [(Commit, Ok), (Close, Ok)])
                       else
                         (Returns (''error'', ''Failed to save attendance. Please contact your teacher.''), d,
                          [(Connect, Ok), (SelectSession, Ok), (InsertScan, Ok)] @ t
                          @ [(Rollback, Ok), (Close, Ok)]))))"

subsection \<open>\<^verbatim>\<open>create_qr_session\<close>\<close>

text \<open>
  \<^verbatim>\<open>timedelta(minutes=m)\<close> raises \<^verbatim>\<open>OverflowError\<close> when the normalised number of
  days leaves \<open>\<plusminus>999999999\<close>; adding it to a \<^verbatim>\<open>datetime\<close> raises when the sum
  leaves \<^verbatim>\<open>datetime.min .. datetime.max\<close> (the years 1 to 9999, 3652059 days).
\<close>

definition datetime_max :: datetime where
  "datetime_max = 3652059 * 86400000000 - 1"

definition timedelta_minutes :: "int \<Rightarrow> int option" where
  "timedelta_minutes m =
     (if - 999999999 \<le> m div 1440 \<and> m div 1440 \<le> 999999999 then Some (m * 60000000) else None)"

definition datetime_plus :: "datetime \<Rightarrow> int \<Rightarrow> datetime option" where
  "datetime_plus t delta =
     (if 0 \<le> t + delta \<and> t + delta \<le> datetime_max then Some (t + delta) else None)"

text \<open>\<^verbatim>\<open>UPDATE attendance_sessions SET is_active = FALSE WHERE section_id = %s\<close>\<close>

definition deactivate_section ::
  "attendance_session list \<Rightarrow> nat option \<Rightarrow> attendance_session list" where
  "deactivate_section rows section_id =
     map (\<lambda>s. if sql_eq (s_section_id s) section_id then s\<lparr>s_is_active := False\<rparr> else s) rows"

text \<open>
  \<^verbatim>\<open>INSERT INTO attendance_sessions (section_id, session_uuid, expires_at, is_active)
  VALUES (%s, %s, %s, TRUE)\<close>; the id comes from the table's sequence.
\<close>

definition insert_session :: "db \<Rightarrow> nat option \<Rightarrow> string \<Rightarrow> datetime \<Rightarrow> db" where
  "insert_session w section_id session_uuid expires_at =
     w\<lparr>attendance_sessions := attendance_sessions w @
          [\<lparr>s_id = Suc (sessions_id_seq w), s_section_id = section_id,
            s_session_uuid = session_uuid, s_expires_at = expires_at, s_is_active = True\<rparr>],
       sessions_id_seq := Suc (sessions_id_seq w)\<rparr>"

text \<open>
  The connection is opened first; \<^verbatim>\<open>uuid4\<close> and \<^verbatim>\<open>datetime.now() +
  timedelta(minutes=duration_minutes)\<close> are evaluated before the \<^verbatim>\<open>try\<close>, so an
  overflow there escapes with the connection left open. Inside the \<^verbatim>\<open>try\<close> every
  exception, the uniqueness conflict on \<^verbatim>\<open>session_uuid\<close> included, leads to
  rollback and \<^verbatim>\<open>return None\<close>.
\<close>

definition create_qr_session ::
  "env \<Rightarrow> db \<Rightarrow> nat option \<Rightarrow> int \<Rightarrow> string option control \<times> db \<times> trace" where
  "create_qr_session e d section_id duration_minutes =
     (if \<not> connect_ok e then (Stops, d, [(Connect, Raised OperationalError)])
      else
        (let session_uuid = uuid4 e in
         case timedelta_minutes duration_minutes of
           None \<Rightarrow> (Raises, d, [(Connect, Ok)])
         | Some delta \<Rightarrow>
            (case datetime_plus (now e) delta of
               None \<Rightarrow> (Raises, d, [(Connect, Ok)])
             | Some expires_at \<Rightarrow>
                 if update_raises e then
                   (Returns None, d,
                    [(Connect, Ok), (DeactivateSection, Raised StoreError), (Rollback, Ok), (Close, Ok)])
                 else
                   (let w = d\<lparr>attendance_sessions :=
                                 deactivate_section (attendance_sessions d) section_id\<rparr>
                    in if insert_session_raises e then
                         (Returns None, d,
                          [(Connect, Ok), (DeactivateSection, Ok), (InsertSession, Raised StoreError),
                           (Rollback, Ok), (Close, Ok)])
                       else if list_ex (\<lambda>s. s_session_uuid s = session_uuid) (attendance_sessions w) then
                         (Returns None, d,
                          [(Connect, Ok), (DeactivateSection, Ok), (InsertSession, Raised UniqueViolation),
                           (Rollback, Ok), (Close, Ok)])
                       else if commit_raises e then
                         (Returns None, d,
                          [(Connect, Ok), (DeactivateSection, Ok), (InsertSession, Ok),
                           (Commit, Raised StoreError), (Rollback, Ok), (Close, Ok)])
                       else
                         (Returns (Some session_uuid),
                          insert_session w section_id session_uuid expires_at,
                          [(Connect, Ok), (DeactivateSection, Ok), (InsertSession, Ok),
                           (Commit, Ok), (Close, Ok)])))))"

text \<open>The call with \<^verbatim>\<open>duration_minutes\<close> omitted: the default is 5.\<close>

definition create_qr_session_default ::
  "env \<Rightarrow> db \<Rightarrow> nat option \<Rightarrow> string option control \<times> db \<times> trace" where
  "create_qr_session_default e d section_id = create_qr_session e d section_id 5"

subsection \<open>\<^verbatim>\<open>deactivate_qr_session\<close>\<close>

text \<open>\<^verbatim>\<open>UPDATE attendance_sessions SET is_active = FALSE WHERE session_uuid = %s\<close>\<close>

definition deactivate_token ::
  "attendance_session list \<Rightarrow> string \<Rightarrow> attendance_session list" where
  "deactivate_token rows session_uuid =
     map (\<lambda>s. if s_session_uuid s = session_uuid then s\<lparr>s_is_active := False\<rparr> else s) rows"

definition deactivate_qr_session :: "env \<Rightarrow> db \<Rightarrow> string \<Rightarrow> bool control \<times> db \<times> trace" where
  "deactivate_qr_session e d session_uuid =
     (if \<not> connect_ok e then (Stops, d, [(Connect, Raised OperationalError)])
      else if has_nul session_uuid then
        (Returns False, d,
         [(Connect, Ok), (DeactivateToken, Raised ValueError), (Rollback, Ok), (Close, Ok)])
      else if update_raises e then
        (Returns False, d,
         [(Connect, Ok), (DeactivateToken, Raised StoreError), (Rollback, Ok), (Close, Ok)])
      else if commit_raises e then
        (Returns False, d,
         [(Connect, Ok), (DeactivateToken, Ok), (Commit, Raised StoreError), (Rollback, Ok), (Close, Ok)])
      else
        (Returns True,
         d\<lparr>attendance_sessions := deactivate_token (attendance_sessions d) session_uuid\<rparr>,
         [(Connect, Ok), (DeactivateToken, Ok), (Commit, Ok), (Close, Ok)]))"

subsection \<open>Properties of a database\<close>

text \<open>The number of sessions of a section whose \<^verbatim>\<open>is_active\<close> is true.\<close>

definition active_count :: "db \<Rightarrow> nat \<Rightarrow> nat" where
  "active_count d sec =
     length (filter (\<lambda>s. s_section_id s = Some sec \<and> s_is_active s) (attendance_sessions d))"

text \<open>The attendance rows of one student, section and date, and the \<^verbatim>\<open>Present\<close> ones.\<close>

definition marks_of :: "db \<Rightarrow> nat \<Rightarrow> nat option \<Rightarrow> string \<Rightarrow> attendance_row list" where
  "marks_of d student_id section_id date_str =
     filter (\<lambda>r. a_student_id r = student_id \<and> a_section_id r = section_id \<and> a_date r = date_str)
       (attendance d)"

definition mark_present :: "db \<Rightarrow> nat \<Rightarrow> nat option \<Rightarrow> string \<Rightarrow> bool" where
  "mark_present d student_id section_id date_str =
     list_ex (\<lambda>r. a_status r = ''Present'') (marks_of d student_id section_id date_str)"

text \<open>
  Whether a call on the connection raised anything but the uniqueness conflict: the
  failure to connect, a refused parameter, or a failure of the store.
\<close>

definition store_error_in :: "trace \<Rightarrow> bool" where
  "store_error_in t =
     list_ex (\<lambda>cr. case snd cr of Ok \<Rightarrow> False | Raised x \<Rightarrow> x \<noteq> UniqueViolation) t"

definition rolled_back :: "trace \<Rightarrow> bool" where
  "rolled_back t = ((Rollback, Ok) \<in> set t \<and> (Commit, Ok) \<notin> set t)"

text \<open>The statuses a caller of \<^verbatim>\<open>redeem_qr_code\<close> can branch on.\<close>

definition status_of :: "(string \<times> string) control \<Rightarrow> string option" where
  "status_of c = (case c of Returns (st, m) \<Rightarrow> Some st | Stops \<Rightarrow> None | Raises \<Rightarrow> None)"

subsection \<open>A small database for the examples\<close>

definition demo_strftime :: "string \<Rightarrow> datetime \<Rightarrow> string" where
  "demo_strftime fmt t = (if fmt = ''%H:%M:%S'' then ''10:05:00'' else ''2025-03-01'')"

definition demo_env :: env where
  "demo_env = \<lparr>connect_ok = True, now = 1000000000000, now_mark = 1000000000001, strftime = demo_strftime,
               uuid4 = ''u-2'', select_raises = False, update_raises = False,
               insert_session_raises = False, insert_scan_raises = False,
               upsert_raises = False, commit_raises = False\<rparr>"

definition demo_session :: attendance_session where
  "demo_session = \<lparr>s_id = 1, s_section_id = Some 7, s_session_uuid = ''u-1'',
                   s_expires_at = 1000300000000, s_is_active = True\<rparr>"

definition demo_db :: db where
  "demo_db = \<lparr>attendance_sessions = [demo_session], qr_scans = [], attendance = [],
              sessions_id_seq = 1\<rparr>"

text \<open>Two live sessions without a section, as two calls \<^verbatim>\<open>create_qr_session(None)\<close> leave them.\<close>

definition demo_null_db :: db where
  "demo_null_db =
     \<lparr>attendance_sessions =
        [\<lparr>s_id = 1, s_section_id = None, s_session_uuid = ''n-1'',
          s_expires_at = 1000300000000, s_is_active = True\<rparr>,
         \<lparr>s_id = 2, s_section_id = None, s_session_uuid = ''n-2'',
          s_expires_at = 1000300000000, s_is_active = True\<rparr>],
      qr_scans = [], attendance = [], sessions_id_seq = 2\<rparr>"

section \<open>Lemmas about the statements\<close>

lemmas demo_defs =
  demo_env_def demo_db_def demo_session_def demo_strftime_def demo_null_db_def

lemmas run_defs =
  redeem_qr_code_def mark_single_student_present_def find_session_def scan_exists_def
  upsert_present_def att_conflict_def sql_eq_def truthy_def the_str_def has_nul_def Let_def

lemma find_session_no_nul: "find_session d tok = Some s \<Longrightarrow> \<not> has_nul tok"
  by (simp add: find_session_def split: if_splits)

lemma sql_eq_imp_eq: "sql_eq a b \<Longrightarrow> a = b"
  by (auto simp: sql_eq_def split: option.splits)

lemma sql_eq_Some: "sql_eq a (Some y) = (a = Some y)"
  by (auto simp: sql_eq_def split: option.splits)

lemma att_conflict_Some:
  "att_conflict stu (Some sec) ds =
     (\<lambda>r. a_student_id r = stu \<and> a_section_id r = Some sec \<and> a_date r = ds)"
  by (rule ext) (simp add: att_conflict_def sql_eq_Some)

lemma upsert_present_has_mark:
  "\<exists>r \<in> set (upsert_present rows stu sec sem ds).
     a_student_id r = stu \<and> a_section_id r = sec \<and> a_date r = ds \<and> a_status r = ''Present''"
proof (cases "list_ex (att_conflict stu sec ds) rows")
  case True
  then obtain r where r: "r \<in> set rows" "att_conflict stu sec ds r"
    by (auto simp: list_ex_iff)
  let ?r = "r\<lparr>a_status := ''Present''\<rparr>"
  from r True have "?r \<in> set (upsert_present rows stu sec sem ds)"
    by (force simp: upsert_present_def)
  moreover from r(2) have "a_student_id ?r = stu \<and> a_section_id ?r = sec \<and> a_date ?r = ds"
    by (auto simp: att_conflict_def dest: sql_eq_imp_eq)
  ultimately show ?thesis by (intro bexI[of _ ?r]) auto
next
  case False
  then show ?thesis by (simp add: upsert_present_def)
qed

lemma mark_present_upsert:
  "attendance w = upsert_present rows stu sec sem ds \<Longrightarrow> mark_present w stu sec ds"
  using upsert_present_has_mark[of rows stu sec sem ds]
  by (auto simp: mark_present_def marks_of_def list_ex_iff)

lemma filter_map_upd:
  assumes "\<And>x. P (g x) = P x"
  shows "length (filter P (map (\<lambda>x. if P x then g x else x) xs)) = length (filter P xs)"
  using assms by (induction xs) simp_all

lemma upsert_present_conflict:
  assumes "list_ex (att_conflict stu sec ds) rows"
  shows "length (filter (att_conflict stu sec ds) (upsert_present rows stu sec sem ds))
           = length (filter (att_conflict stu sec ds) rows)"
proof -
  have "\<And>r. att_conflict stu sec ds (r\<lparr>a_status := ''Present''\<rparr>) = att_conflict stu sec ds r"
    by (simp add: att_conflict_def)
  then have "length (filter (att_conflict stu sec ds)
                (map (\<lambda>r. if att_conflict stu sec ds r then r\<lparr>a_status := ''Present''\<rparr> else r) rows))
             = length (filter (att_conflict stu sec ds) rows)"
    by (rule filter_map_upd)
  with assms show ?thesis by (simp only: upsert_present_def if_True)
qed

lemma upsert_present_status:
  assumes "r \<in> set (upsert_present rows stu sec sem ds)" and "att_conflict stu sec ds r"
  shows "a_status r = ''Present''"
proof (cases "list_ex (att_conflict stu sec ds) rows")
  case True
  with assms(1) obtain r0 where "r0 \<in> set rows"
    and r: "r = (if att_conflict stu sec ds r0 then r0\<lparr>a_status := ''Present''\<rparr> else r0)"
    by (auto simp only: upsert_present_def if_True set_map)
  show ?thesis
  proof (cases "att_conflict stu sec ds r0")
    case True
    with r show ?thesis by simp
  next
    case False
    with r assms(2) show ?thesis by simp
  qed
next
  case False
  with assms show ?thesis
    by (auto simp: upsert_present_def list_ex_iff)
qed

lemma upsert_present_fresh:
  assumes "\<not> list_ex (att_conflict stu (Some sec) ds) rows"
  shows "length (filter (att_conflict stu (Some sec) ds) (upsert_present rows stu (Some sec) sem ds)) = 1"
proof -
  from assms have "filter (att_conflict stu (Some sec) ds) rows = []"
    by (simp add: list_ex_iff filter_empty_conv)
  moreover have "att_conflict stu (Some sec) ds
      \<lparr>a_student_id = stu, a_section_id = Some sec, a_semester_id = sem,
        a_date = ds, a_status = ''Present''\<rparr>"
    by (simp add: att_conflict_def sql_eq_def)
  ultimately show ?thesis using assms by (simp add: upsert_present_def)
qed

lemma upsert_present_one:
  assumes "length (filter (att_conflict stu (Some sec) ds) rows) \<le> 1"
  shows "length (filter (att_conflict stu (Some sec) ds) (upsert_present rows stu (Some sec) sem ds)) = 1"
proof (cases "list_ex (att_conflict stu (Some sec) ds) rows")
  case True
  then have "filter (att_conflict stu (Some sec) ds) rows \<noteq> []"
    by (simp add: list_ex_iff filter_empty_conv)
  then have "1 \<le> length (filter (att_conflict stu (Some sec) ds) rows)"
    by (cases "filter (att_conflict stu (Some sec) ds) rows") simp_all
  with assms upsert_present_conflict[OF True, of sem] show ?thesis by simp
next
  case False
  then show ?thesis by (rule upsert_present_fresh)
qed

lemma redeem_sessions_unchanged:
  "attendance_sessions (fst (snd (redeem_qr_code e d tok stu sem))) = attendance_sessions d"
  by (simp add: redeem_qr_code_def mark_single_student_present_def Let_def split: option.splits)

section \<open>Redemption\<close>

subsection \<open>Store errors and atomicity\<close>

text \<open>
  C1, as the claim states it, fails for the store error of a connection that cannot be
  obtained: \<^verbatim>\<open>get_db_connection()\<close> runs before the \<^verbatim>\<open>try\<close> block and stops the
  script, so the caller gets no error pair and the call makes no rollback.
\<close>

theorem redeem_store_unreachable_counterexample:
  "store_error_in (snd (snd (redeem_qr_code (demo_env\<lparr>connect_ok := False\<rparr>) demo_db ''u-1'' 4 1)))
   \<and> fst (redeem_qr_code (demo_env\<lparr>connect_ok := False\<rparr>) demo_db ''u-1'' 4 1)
        \<noteq> Returns (''error'', ''An unexpected error occurred.'')
   \<and> fst (redeem_qr_code (demo_env\<lparr>connect_ok := False\<rparr>) demo_db ''u-1'' 4 1)
        \<noteq> Returns (''error'', ''Failed to save attendance. Please contact your teacher.'')
   \<and> \<not> rolled_back (snd (snd (redeem_qr_code (demo_env\<lparr>connect_ok := False\<rparr>) demo_db ''u-1'' 4 1)))"
  by (simp add: redeem_qr_code_def demo_defs store_error_in_def rolled_back_def)

text \<open>
  C1, amended. Take any call of \<^verbatim>\<open>redeem_qr_code\<close>. If it has obtained its
  connection and a call on the connection raises anything but the uniqueness conflict (a
  refused parameter, or a store failure in the lookup, the scan insert, the attendance
  upsert or the commit), the caller gets status \<^verbatim>\<open>error\<close> with one of the two generic
  messages, the transaction is rolled back and the database is as before the call.
  Whether or not the connection is obtained, the database after the call is either the
  one before it, with a status other than \<^verbatim>\<open>success\<close>, or the status is
  \<^verbatim>\<open>success\<close> and the database is the one before it with the scan row of this
  session and student added and the attendance row of the student, the session's section
  and today's date upserted, so that the scan and a \<^verbatim>\<open>Present\<close> mark are both
  there.
\<close>

theorem redeem_all_or_nothing:
  "case redeem_qr_code e d session_uuid student_id semester_id of (r, d', t) \<Rightarrow>
         (connect_ok e \<and> store_error_in t \<longrightarrow>
            (r = Returns (''error'', ''An unexpected error occurred.'') \<or>
             r = Returns (''error'', ''Failed to save attendance. Please contact your teacher.''))
            \<and> d' = d \<and> rolled_back t)
         \<and> ((d' = d \<and> status_of r \<noteq> Some ''success'') \<or>
              (\<exists>s. find_session d session_uuid = Some s
                  \<and> status_of r = Some ''success''
                  \<and> d' = d\<lparr>qr_scans := qr_scans d @
                                  [\<lparr>q_session_id = s_id s, q_student_id = student_id\<rparr>],
                             attendance := upsert_present (attendance d) student_id
                                  (s_section_id s) semester_id (strftime e ''%Y-%m-%d'' (now_mark e))\<rparr>
                  \<and> scan_exists d' (s_id s) student_id
                  \<and> mark_present d' student_id (s_section_id s)
                      (strftime e ''%Y-%m-%d'' (now_mark e))))"
  by (auto simp: redeem_qr_code_def mark_single_student_present_def Let_def store_error_in_def
        rolled_back_def scan_exists_def truthy_def status_of_def
      intro: mark_present_upsert split: option.splits)

theorem redeem_all_or_nothing_witness:
  "connect_ok (demo_env\<lparr>commit_raises := True\<rparr>)
   \<and> store_error_in (snd (snd (redeem_qr_code (demo_env\<lparr>commit_raises := True\<rparr>) demo_db ''u-1'' 4 1)))
   \<and> fst (redeem_qr_code (demo_env\<lparr>commit_raises := True\<rparr>) demo_db ''u-1'' 4 1)
       = Returns (''error'', ''An unexpected error occurred.'')
   \<and> fst (snd (redeem_qr_code (demo_env\<lparr>commit_raises := True\<rparr>) demo_db ''u-1'' 4 1)) = demo_db
   \<and> rolled_back (snd (snd (redeem_qr_code (demo_env\<lparr>commit_raises := True\<rparr>) demo_db ''u-1'' 4 1)))"
  using redeem_all_or_nothing [of "demo_env\<lparr>commit_raises := True\<rparr>" demo_db "''u-1''" 4 1]
  by (simp add: run_defs demo_defs store_error_in_def rolled_back_def status_of_def)

subsection \<open>Redeeming twice\<close>

text \<open>
  C2, as the claim states it, fails for a session that has no section: with
  \<^verbatim>\<open>section_id\<close> NULL the \<^verbatim>\<open>ON CONFLICT\<close> clause of the upsert never fires, so the
  first redemption of a second such session by the same student on the same day returns
  \<^verbatim>\<open>success\<close> and leaves two attendance marks for (student, section, today).
\<close>

theorem redeem_null_section_counterexample:
  "find_session (fst (snd (redeem_qr_code demo_env demo_null_db ''n-1'' 4 1))) ''n-2''
     = Some \<lparr>s_id = 2, s_section_id = None, s_session_uuid = ''n-2'',
              s_expires_at = 1000300000000, s_is_active = True\<rparr>
   \<and> now demo_env \<le> 1000300000000
   \<and> \<not> scan_exists (fst (snd (redeem_qr_code demo_env demo_null_db ''n-1'' 4 1))) 2 4
   \<and> fst (redeem_qr_code demo_env
           (fst (snd (redeem_qr_code demo_env demo_null_db ''n-1'' 4 1))) ''n-2'' 4 1)
       = Returns (''success'', ''Attendance successfully marked for **2025-03-01**!'')
   \<and> length (marks_of (fst (snd (redeem_qr_code demo_env
           (fst (snd (redeem_qr_code demo_env demo_null_db ''n-1'' 4 1))) ''n-2'' 4 1)))
         4 None ''2025-03-01'') = 2"
  by (simp add: run_defs demo_defs marks_of_def)

text \<open>
  C2, amended. Take a session that the lookup finds, that is active, has a section
  (\<^verbatim>\<open>section_id\<close> not NULL) and is not past its expiry at either call, a student who
  has no scan row for it yet, and a database that holds at most one attendance row for the
  student, the section and today. With a connection and no store error, the first call
  returns \<^verbatim>\<open>success\<close> and leaves exactly one attendance row for (student, section,
  today), with status \<^verbatim>\<open>Present\<close>; the second call with the same token and student
  returns the \<^verbatim>\<open>info\<close> outcome, rolls back and leaves the database of the first call
  unchanged.
\<close>

theorem redeem_twice:
  assumes env1: "connect_ok e1" "\<not> select_raises e1" "\<not> insert_scan_raises e1"
      "\<not> upsert_raises e1" "\<not> commit_raises e1"
    and env2: "connect_ok e2" "\<not> select_raises e2" "\<not> insert_scan_raises e2"
    and sess: "find_session d session_uuid = Some s" "s_is_active s" "s_section_id s = Some sec"
    and live: "now e1 \<le> s_expires_at s" "now e2 \<le> s_expires_at s"
    and first: "\<not> scan_exists d (s_id s) student_id"
    and today: "strftime e1 ''%Y-%m-%d'' (now_mark e1) = today" "today \<noteq> []"
    and uniq: "length (marks_of d student_id (Some sec) today) \<le> 1"
    and run1: "redeem_qr_code e1 d session_uuid student_id semester_id = (r1, d1, t1)"
    and run2: "redeem_qr_code e2 d1 session_uuid student_id semester_id = (r2, d2, t2)"
  shows "r1 = Returns (''success'', ''Attendance successfully marked for **'' @ today @ ''**!'')
       \<and> length (marks_of d1 student_id (Some sec) today) = 1
       \<and> (\<forall>r \<in> set (marks_of d1 student_id (Some sec) today). a_status r = ''Present'')
       \<and> r2 = Returns (''info'', ''Attendance already marked for this session.'')
       \<and> rolled_back t2
       \<and> d2 = d1"
proof -
  let ?d1 = "d\<lparr>qr_scans := qr_scans d @ [\<lparr>q_session_id = s_id s, q_student_id = student_id\<rparr>],
               attendance := upsert_present (attendance d) student_id (Some sec) semester_id today\<rparr>"
  have "redeem_qr_code e1 d session_uuid student_id semester_id =
          (Returns (''success'', ''Attendance successfully marked for **'' @ today @ ''**!''), ?d1,
           [(Connect, Ok), (SelectSession, Ok), (InsertScan, Ok), (UpsertAttendance, Ok),
            (Commit, Ok), (Close, Ok)])"
    using env1 sess live(1) first today find_session_no_nul [OF sess(1)]
    by (simp add: redeem_qr_code_def mark_single_student_present_def Let_def truthy_def the_str_def)
  with run1 have r1: "r1 = Returns (''success'', ''Attendance successfully marked for **'' @ today @ ''**!'')"
    and d1: "d1 = ?d1" by simp_all
  have marks: "length (marks_of d1 student_id (Some sec) today) = 1
       \<and> (\<forall>r \<in> set (marks_of d1 student_id (Some sec) today). a_status r = ''Present'')"
  proof -
    have m: "marks_of d1 student_id (Some sec) today =
          filter (att_conflict student_id (Some sec) today)
            (upsert_present (attendance d) student_id (Some sec) semester_id today)"
      by (simp add: d1 marks_of_def att_conflict_Some)
    from uniq have "length (filter (att_conflict student_id (Some sec) today) (attendance d)) \<le> 1"
      by (simp add: marks_of_def att_conflict_Some)
    then have "length (marks_of d1 student_id (Some sec) today) = 1"
      unfolding m by (rule upsert_present_one)
    moreover have "\<forall>r \<in> set (marks_of d1 student_id (Some sec) today). a_status r = ''Present''"
      unfolding m using upsert_present_status by auto
    ultimately show ?thesis by (rule conjI)
  qed
  have found: "find_session d1 session_uuid = Some s"
    using sess(1) by (simp add: d1 find_session_def split: if_splits)
  have scanned: "scan_exists d1 (s_id s) student_id"
    by (simp add: d1 scan_exists_def)
  have "redeem_qr_code e2 d1 session_uuid student_id semester_id =
          (Returns (''info'', ''Attendance already marked for this session.''), d1,
           [(Connect, Ok), (SelectSession, Ok), (InsertScan, Raised UniqueViolation),
            (Rollback, Ok), (Close, Ok)])"
    using env2 found sess(2) live(2) scanned find_session_no_nul [OF sess(1)]
    by (simp add: redeem_qr_code_def)
  with run2 have "r2 = Returns (''info'', ''Attendance already marked for this session.'')"
    and "d2 = d1" and "rolled_back t2"
    by (auto simp: rolled_back_def)
  with r1 marks show ?thesis by simp
qed

theorem redeem_twice_witness:
  "fst (redeem_qr_code demo_env demo_db ''u-1'' 4 1)
     = Returns (''success'', ''Attendance successfully marked for **2025-03-01**!'')
   \<and> length (marks_of (fst (snd (redeem_qr_code demo_env demo_db ''u-1'' 4 1))) 4 (Some 7) ''2025-03-01'') = 1
   \<and> fst (redeem_qr_code (demo_env\<lparr>now := 1000120000000\<rparr>)
            (fst (snd (redeem_qr_code demo_env demo_db ''u-1'' 4 1))) ''u-1'' 4 1)
     = Returns (''info'', ''Attendance already marked for this session.'')
   \<and> fst (snd (redeem_qr_code (demo_env\<lparr>now := 1000120000000\<rparr>)
            (fst (snd (redeem_qr_code demo_env demo_db ''u-1'' 4 1))) ''u-1'' 4 1))
     = fst (snd (redeem_qr_code demo_env demo_db ''u-1'' 4 1))"
  using redeem_twice [where ?e1.0 = demo_env and ?e2.0 = "demo_env\<lparr>now := 1000120000000\<rparr>"
      and d = demo_db and session_uuid = "''u-1''" and s = demo_session and sec = 7
      and student_id = 4 and semester_id = 1 and today = "''2025-03-01''"
      and ?r1.0 = "fst (redeem_qr_code demo_env demo_db ''u-1'' 4 1)"
      and ?d1.0 = "fst (snd (redeem_qr_code demo_env demo_db ''u-1'' 4 1))"
      and ?t1.0 = "snd (snd (redeem_qr_code demo_env demo_db ''u-1'' 4 1))"
      and ?r2.0 = "fst (redeem_qr_code (demo_env\<lparr>now := 1000120000000\<rparr>)
            (fst (snd (redeem_qr_code demo_env demo_db ''u-1'' 4 1))) ''u-1'' 4 1)"
      and ?d2.0 = "fst (snd (redeem_qr_code (demo_env\<lparr>now := 1000120000000\<rparr>)
            (fst (snd (redeem_qr_code demo_env demo_db ''u-1'' 4 1))) ''u-1'' 4 1))"
      and ?t2.0 = "snd (snd (redeem_qr_code (demo_env\<lparr>now := 1000120000000\<rparr>)
            (fst (snd (redeem_qr_code demo_env demo_db ''u-1'' 4 1))) ''u-1'' 4 1))"]
  by (simp add: run_defs demo_defs marks_of_def)

subsection \<open>Acceptance and the expiry time\<close>

text \<open>
  C3, as the claim states it, fails at the boundary: a redemption at the very instant
  \<^verbatim>\<open>expires_at\<close> is accepted, since the code rejects only
  \<^verbatim>\<open>datetime.now() > expires_at\<close>.
\<close>

theorem redeem_at_expiry_counterexample:
  "find_session demo_db ''u-1'' = Some demo_session
   \<and> now (demo_env\<lparr>now := 1000300000000\<rparr>) = s_expires_at demo_session
   \<and> fst (redeem_qr_code (demo_env\<lparr>now := 1000300000000\<rparr>) demo_db ''u-1'' 4 1)
       = Returns (''success'', ''Attendance successfully marked for **2025-03-01**!'')"
  by (simp add: run_defs demo_defs)

text \<open>
  C3, amended. Whenever \<^verbatim>\<open>redeem_qr_code\<close> returns status \<^verbatim>\<open>success\<close>, the
  session it looked up had \<^verbatim>\<open>is_active\<close> true and the current time was not after
  \<^verbatim>\<open>expires_at\<close> (it may equal it); so a redemption at a time strictly after
  \<^verbatim>\<open>expires_at\<close> never returns \<^verbatim>\<open>success\<close>.
\<close>

theorem redeem_success_only_if:
  assumes "status_of (fst (redeem_qr_code e d session_uuid student_id semester_id)) = Some ''success''"
  shows "\<exists>s. find_session d session_uuid = Some s \<and> s_is_active s \<and> now e \<le> s_expires_at s"
  using assms
  by (simp add: redeem_qr_code_def mark_single_student_present_def Let_def status_of_def
      split: option.splits if_splits)

theorem redeem_success_only_if_witness:
  "status_of (fst (redeem_qr_code demo_env demo_db ''u-1'' 4 1)) = Some ''success''
   \<and> find_session demo_db ''u-1'' = Some demo_session
   \<and> s_is_active demo_session \<and> now demo_env \<le> s_expires_at demo_session"
  using redeem_success_only_if [of demo_env demo_db "''u-1''" 4 1]
  by (simp add: run_defs demo_defs status_of_def)

subsection \<open>Expired sessions\<close>

text \<open>
  C5. When a connection is obtained and the lookup does not fail, a session that is found
  and whose \<^verbatim>\<open>expires_at\<close> lies before the current time is answered with the expiry
  error, whatever its \<^verbatim>\<open>is_active\<close> flag; the message ends with the expiry time
  formatted by \<^verbatim>\<open>'%H:%M:%S'\<close>, and nothing is committed.
\<close>

theorem redeem_expired:
  assumes "connect_ok e" and "\<not> select_raises e"
    and "find_session d session_uuid = Some s"
    and "now e > s_expires_at s"
  shows "redeem_qr_code e d session_uuid student_id semester_id =
           (Returns (''error'', ''QR Code has expired. This session ended at ''
                       @ strftime e ''%H:%M:%S'' (s_expires_at s) @ ''.''), d,
            [(Connect, Ok), (SelectSession, Ok), (Rollback, Ok), (Close, Ok)])"
  using assms find_session_no_nul [OF assms(3)] by (simp add: redeem_qr_code_def)

theorem redeem_expired_witness:
  "connect_ok (demo_env\<lparr>now := 1000300000001\<rparr>) \<and> \<not> select_raises (demo_env\<lparr>now := 1000300000001\<rparr>)
   \<and> find_session demo_db ''u-1'' = Some demo_session
   \<and> s_is_active demo_session
   \<and> now (demo_env\<lparr>now := 1000300000001\<rparr>) > s_expires_at demo_session
   \<and> redeem_qr_code (demo_env\<lparr>now := 1000300000001\<rparr>) demo_db ''u-1'' 4 1 =
       (Returns (''error'', ''QR Code has expired. This session ended at 10:05:00.''), demo_db,
        [(Connect, Ok), (SelectSession, Ok), (Rollback, Ok), (Close, Ok)])"
  using redeem_expired [of "demo_env\<lparr>now := 1000300000001\<rparr>" demo_db "''u-1''" demo_session 4 1]
  by (simp add: find_session_def has_nul_def demo_defs)

subsection \<open>Inactive sessions\<close>

text \<open>
  C6, as the claim states it, fails for a session that is both inactive and expired: the
  code tests expiry first, and such a session is answered with the expiry error.
\<close>

theorem redeem_inactive_expired_counterexample:
  "find_session (demo_db\<lparr>attendance_sessions := [demo_session\<lparr>s_is_active := False\<rparr>]\<rparr>) ''u-1''
     = Some (demo_session\<lparr>s_is_active := False\<rparr>)
   \<and> \<not> s_is_active (demo_session\<lparr>s_is_active := False\<rparr>)
   \<and> fst (redeem_qr_code (demo_env\<lparr>now := 1000300000001\<rparr>)
           (demo_db\<lparr>attendance_sessions := [demo_session\<lparr>s_is_active := False\<rparr>]\<rparr>) ''u-1'' 4 1)
       = Returns (''error'', ''QR Code has expired. This session ended at 10:05:00.'')
   \<and> fst (redeem_qr_code (demo_env\<lparr>now := 1000300000001\<rparr>)
           (demo_db\<lparr>attendance_sessions := [demo_session\<lparr>s_is_active := False\<rparr>]\<rparr>) ''u-1'' 4 1)
       \<noteq> Returns (''error'', ''This attendance session is no longer active.'')"
  by (simp add: run_defs demo_defs)

text \<open>
  C6, amended. When a connection is obtained and the lookup does not fail, a session that
  is found with \<^verbatim>\<open>is_active\<close> false is answered with the inactive error if the current
  time is not after \<^verbatim>\<open>expires_at\<close>, and with the expiry error otherwise: the expiry
  test comes before the \<^verbatim>\<open>is_active\<close> test. Nothing is committed either way.
\<close>

theorem redeem_inactive_not_expired:
  assumes "connect_ok e" and "\<not> select_raises e"
    and "find_session d session_uuid = Some s"
    and "\<not> s_is_active s"
  shows "redeem_qr_code e d session_uuid student_id semester_id =
           (if now e > s_expires_at s
            then (Returns (''error'', ''QR Code has expired. This session ended at ''
                       @ strftime e ''%H:%M:%S'' (s_expires_at s) @ ''.''), d,
                  [(Connect, Ok), (SelectSession, Ok), (Rollback, Ok), (Close, Ok)])
            else (Returns (''error'', ''This attendance session is no longer active.''), d,
                  [(Connect, Ok), (SelectSession, Ok), (Rollback, Ok), (Close, Ok)]))"
  using assms find_session_no_nul [OF assms(3)] by (simp add: redeem_qr_code_def)

theorem redeem_inactive_not_expired_witness:
  "connect_ok demo_env \<and> \<not> select_raises demo_env
   \<and> find_session (demo_db\<lparr>attendance_sessions := [demo_session\<lparr>s_is_active := False\<rparr>]\<rparr>) ''u-1''
       = Some (demo_session\<lparr>s_is_active := False\<rparr>)
   \<and> \<not> s_is_active (demo_session\<lparr>s_is_active := False\<rparr>)
   \<and> redeem_qr_code demo_env
        (demo_db\<lparr>attendance_sessions := [demo_session\<lparr>s_is_active := False\<rparr>]\<rparr>) ''u-1'' 4 1 =
       (Returns (''error'', ''This attendance session is no longer active.''),
        demo_db\<lparr>attendance_sessions := [demo_session\<lparr>s_is_active := False\<rparr>]\<rparr>,
        [(Connect, Ok), (SelectSession, Ok), (Rollback, Ok), (Close, Ok)])"
  using redeem_inactive_not_expired [of demo_env
      "demo_db\<lparr>attendance_sessions := [demo_session\<lparr>s_is_active := False\<rparr>]\<rparr>"
      "''u-1''" "demo_session\<lparr>s_is_active := False\<rparr>" 4 1]
  by (simp add: find_session_def has_nul_def demo_defs)

subsection \<open>Unknown tokens\<close>

text \<open>
  C7, as the claim states it, fails for a token with a NUL character, which the scanner
  can deliver: the driver refuses the lookup, and the call answers with the generic
  error, not with the invalid-code error.
\<close>

theorem redeem_nul_token_counterexample:
  "[CHR 0x00] \<notin> s_session_uuid ` set (attendance_sessions demo_db)
   \<and> fst (redeem_qr_code demo_env demo_db [CHR 0x00] 4 1)
       = Returns (''error'', ''An unexpected error occurred.'')
   \<and> fst (redeem_qr_code demo_env demo_db [CHR 0x00] 4 1)
       \<noteq> Returns (''error'', ''Invalid QR Code. This session does not exist.'')"
  by (simp add: redeem_qr_code_def has_nul_def demo_defs)

text \<open>
  C7, amended. For a token that is the \<^verbatim>\<open>session_uuid\<close> of no stored session, the
  call never inserts a scan nor upserts an attendance row, and the database is unchanged.
  Without a connection nothing is returned. With one, a token that has a NUL character,
  or else a lookup that fails in the store, is answered with the generic error after a
  rollback; in every other case the call makes the lookup, rolls back, closes and
  answers with the invalid-code error.
\<close>

theorem redeem_unknown_token:
  assumes "session_uuid \<notin> s_session_uuid ` set (attendance_sessions d)"
  shows "redeem_qr_code e d session_uuid student_id semester_id =
           (if \<not> connect_ok e then (Stops, d, [(Connect, Raised OperationalError)])
            else if has_nul session_uuid then
              (Returns (''error'', ''An unexpected error occurred.''), d,
               [(Connect, Ok), (SelectSession, Raised ValueError), (Rollback, Ok), (Close, Ok)])
            else if select_raises e then
              (Returns (''error'', ''An unexpected error occurred.''), d,
               [(Connect, Ok), (SelectSession, Raised StoreError), (Rollback, Ok), (Close, Ok)])
            else
              (Returns (''error'', ''Invalid QR Code. This session does not exist.''), d,
               [(Connect, Ok), (SelectSession, Ok), (Rollback, Ok), (Close, Ok)]))"
proof -
  from assms have "find_session d session_uuid = None"
    by (auto simp: find_session_def find_None_iff)
  then show ?thesis by (simp add: redeem_qr_code_def)
qed

theorem redeem_unknown_token_witness:
  "''nope'' \<notin> s_session_uuid ` set (attendance_sessions demo_db)
   \<and> connect_ok demo_env \<and> \<not> has_nul ''nope'' \<and> \<not> select_raises demo_env
   \<and> redeem_qr_code demo_env demo_db ''nope'' 4 1 =
       (Returns (''error'', ''Invalid QR Code. This session does not exist.''), demo_db,
        [(Connect, Ok), (SelectSession, Ok), (Rollback, Ok), (Close, Ok)])"
  using redeem_unknown_token [of "''nope''" demo_db demo_env 4 1]
  by (simp add: has_nul_def demo_defs)

subsection \<open>The status returned\<close>

text \<open>
  C10, as the claim states it, fails when no connection can be obtained:
  \<^verbatim>\<open>get_db_connection()\<close> is called before the \<^verbatim>\<open>try\<close> block and stops the
  script, so the caller gets no pair.
\<close>

theorem redeem_no_connection_counterexample:
  "fst (redeem_qr_code (demo_env\<lparr>connect_ok := False\<rparr>) demo_db ''u-1'' 4 1) = Stops
   \<and> status_of (fst (redeem_qr_code (demo_env\<lparr>connect_ok := False\<rparr>) demo_db ''u-1'' 4 1)) = None"
  by (simp add: redeem_qr_code_def demo_defs status_of_def)

text \<open>
  C10, amended. Whenever the connection is obtained, \<^verbatim>\<open>redeem_qr_code\<close> returns a pair
  whose status is \<^verbatim>\<open>success\<close>, \<^verbatim>\<open>info\<close> or \<^verbatim>\<open>error\<close>, whatever the token, the
  student, the semester, the database and the failures of the statements inside the
  \<^verbatim>\<open>try\<close> block.
\<close>

theorem redeem_status_when_connected:
  assumes "connect_ok e"
  shows "status_of (fst (redeem_qr_code e d session_uuid student_id semester_id))
           \<in> {Some ''success'', Some ''info'', Some ''error''}"
  using assms
  by (simp add: redeem_qr_code_def mark_single_student_present_def Let_def status_of_def
      split: option.splits)

theorem redeem_status_when_connected_witness:
  "connect_ok (demo_env\<lparr>select_raises := True\<rparr>)
   \<and> status_of (fst (redeem_qr_code (demo_env\<lparr>select_raises := True\<rparr>) demo_db ''u-1'' 4 1))
       = Some ''error''"
  using redeem_status_when_connected [of "demo_env\<lparr>select_raises := True\<rparr>" demo_db "''u-1''" 4 1]
  by (simp add: redeem_qr_code_def demo_defs status_of_def)

section \<open>Issuing a session\<close>

lemmas create_defs =
  create_qr_session_def timedelta_minutes_def datetime_plus_def datetime_max_def
  deactivate_section_def insert_session_def sql_eq_def Let_def

lemma filter_map_le:
  assumes "\<And>x. P (f x) \<Longrightarrow> P x"
  shows "length (filter P (map f xs)) \<le> length (filter P xs)"
  using assms by (induction xs) auto

lemma active_deactivate_section_same:
  "filter (\<lambda>s. s_section_id s = Some sec \<and> s_is_active s) (deactivate_section rows (Some sec)) = []"
  by (induction rows) (auto simp: deactivate_section_def sql_eq_def)

lemma active_deactivate_section_other:
  "section_id \<noteq> Some sec \<Longrightarrow>
   filter (\<lambda>s. s_section_id s = Some sec \<and> s_is_active s) (deactivate_section rows section_id)
     = filter (\<lambda>s. s_section_id s = Some sec \<and> s_is_active s) rows"
  by (induction rows) (auto simp: deactivate_section_def sql_eq_def split: option.splits)

lemma deactivate_section_off:
  "s \<in> set (deactivate_section rows (Some sec)) \<Longrightarrow> s_section_id s = Some sec \<Longrightarrow> \<not> s_is_active s"
  using active_deactivate_section_same [of sec rows]
  by (simp add: filter_empty_conv)

lemma active_count_issue:
  "active_count
     (insert_session (d\<lparr>attendance_sessions := deactivate_section (attendance_sessions d) section_id\<rparr>)
        section_id tok ex) sec
   = (if section_id = Some sec then 1 else active_count d sec)"
  by (simp add: active_count_def insert_session_def active_deactivate_section_same
        active_deactivate_section_other)

lemma active_count_deactivate_token:
  "active_count (d\<lparr>attendance_sessions := deactivate_token (attendance_sessions d) tok\<rparr>) sec
     \<le> active_count d sec"
proof -
  have "length (filter (\<lambda>s. s_section_id s = Some sec \<and> s_is_active s)
          (map (\<lambda>s. if s_session_uuid s = tok then s\<lparr>s_is_active := False\<rparr> else s)
             (attendance_sessions d)))
        \<le> length (filter (\<lambda>s. s_section_id s = Some sec \<and> s_is_active s) (attendance_sessions d))"
    by (rule filter_map_le) (auto split: if_splits)
  then show ?thesis by (simp add: active_count_def deactivate_token_def)
qed

lemma active_count_redeem:
  "active_count (fst (snd (redeem_qr_code e d tok stu sem))) sec = active_count d sec"
  by (simp add: active_count_def redeem_sessions_unchanged)

lemma create_qr_session_ok:
  assumes "connect_ok e"
    and "- 999999999 \<le> m div 1440" and "m div 1440 \<le> 999999999"
    and "0 \<le> now e + m * 60000000" and "now e + m * 60000000 \<le> datetime_max"
    and "\<not> update_raises e" and "\<not> insert_session_raises e" and "\<not> commit_raises e"
    and "uuid4 e \<notin> s_session_uuid ` set (attendance_sessions d)"
  shows "create_qr_session e d section_id m =
           (Returns (Some (uuid4 e)),
            insert_session (d\<lparr>attendance_sessions := deactivate_section (attendance_sessions d) section_id\<rparr>)
              section_id (uuid4 e) (now e + m * 60000000),
            [(Connect, Ok), (DeactivateSection, Ok), (InsertSession, Ok), (Commit, Ok), (Close, Ok)])"
proof -
  have "\<not> list_ex (\<lambda>s. s_session_uuid s = uuid4 e)
           (deactivate_section (attendance_sessions d) section_id)"
  proof -
    from assms(9) have "\<forall>s \<in> set (attendance_sessions d). s_session_uuid s \<noteq> uuid4 e"
      by force
    then show ?thesis by (auto simp: list_ex_iff deactivate_section_def)
  qed
  with assms show ?thesis
    by (simp add: create_qr_session_def Let_def timedelta_minutes_def datetime_plus_def)
qed

lemma create_qr_session_token:
  assumes "fst (create_qr_session e d section_id m) = Returns (Some tok)"
  shows "tok = uuid4 e \<and> connect_ok e
       \<and> timedelta_minutes m = Some (m * 60000000)
       \<and> datetime_plus (now e) (m * 60000000) = Some (now e + m * 60000000)
       \<and> fst (snd (create_qr_session e d section_id m)) =
          insert_session (d\<lparr>attendance_sessions := deactivate_section (attendance_sessions d) section_id\<rparr>)
            section_id (uuid4 e) (now e + m * 60000000)"
  using assms
  by (simp add: create_qr_session_def Let_def timedelta_minutes_def datetime_plus_def
      split: option.splits if_splits)

lemma create_qr_session_no_token:
  assumes "\<forall>tok. fst (create_qr_session e d section_id m) \<noteq> Returns (Some tok)"
  shows "fst (snd (create_qr_session e d section_id m)) = d"
  using assms
  by (simp add: create_qr_session_def Let_def split: option.splits if_splits)

lemma create_qr_session_fresh:
  assumes "fst (create_qr_session e d section_id m) = Returns (Some tok)"
  shows "tok \<notin> s_session_uuid ` set (attendance_sessions d)"
proof -
  from assms have tok: "tok = uuid4 e"
    and "\<not> list_ex (\<lambda>s. s_session_uuid s = uuid4 e)
            (deactivate_section (attendance_sessions d) section_id)"
    by (simp_all add: create_qr_session_def Let_def split: option.splits if_splits)
  then have "\<forall>s \<in> set (attendance_sessions d).
      s_session_uuid (if sql_eq (s_section_id s) section_id then s\<lparr>s_is_active := False\<rparr> else s)
        \<noteq> uuid4 e"
    by (simp add: list_ex_iff deactivate_section_def)
  then have "\<forall>s \<in> set (attendance_sessions d). s_session_uuid s \<noteq> uuid4 e"
    by (auto split: if_splits)
  with tok show ?thesis by blast
qed

lemma create_qr_session_connects:
  "\<exists>r rest. snd (snd (create_qr_session e d section_id m)) = (Connect, r) # rest"
  by (simp add: create_qr_session_def Let_def split: option.splits)

lemma deactivate_qr_session_db:
  "fst (snd (deactivate_qr_session e d tok)) = d \<or>
   fst (snd (deactivate_qr_session e d tok)) =
     d\<lparr>attendance_sessions := deactivate_token (attendance_sessions d) tok\<rparr>"
  by (simp add: deactivate_qr_session_def)

lemma active_count_create:
  assumes "active_count d sec \<le> 1"
  shows "active_count (fst (snd (create_qr_session e d section_id m))) sec \<le> 1"
proof (cases "\<exists>tok. fst (create_qr_session e d section_id m) = Returns (Some tok)")
  case True
  then obtain tok where "fst (create_qr_session e d section_id m) = Returns (Some tok)" ..
  from create_qr_session_token [OF this] assms show ?thesis
    by (simp add: active_count_issue)
next
  case False
  then have "fst (snd (create_qr_session e d section_id m)) = d"
    by (intro create_qr_session_no_token) simp
  with assms show ?thesis by simp
qed

lemma active_count_deactivate:
  assumes "active_count d sec \<le> 1"
  shows "active_count (fst (snd (deactivate_qr_session e d tok))) sec \<le> 1"
  using deactivate_qr_session_db [of e d tok] active_count_deactivate_token [of d tok sec] assms
  by auto

text \<open>
  C4. If every section has at most one active session before a call of
  \<^verbatim>\<open>create_qr_session\<close>, \<^verbatim>\<open>redeem_qr_code\<close> or \<^verbatim>\<open>deactivate_qr_session\<close>,
  it has at most one after it, whatever the call's outcome. When
  \<^verbatim>\<open>create_qr_session\<close> returns a token, the token is the generated uuid and is the
  token of no earlier session; the session table is the old one with every session of
  the section deactivated, followed by exactly one new row, which is active, carries the
  token and expires at now plus the duration in minutes; scans and attendance are
  untouched; and the section then has exactly one active session. With a connection, a
  representable expiry time, no statement failure and a new uuid, the call does return
  the token.
\<close>

theorem single_active_session:
  "((\<forall>sec. active_count d sec \<le> 1) \<longrightarrow>
       (\<forall>sec. active_count (fst (snd (create_qr_session e d section_id m))) sec \<le> 1)
     \<and> (\<forall>sec. active_count (fst (snd (redeem_qr_code e d tok student_id semester_id))) sec \<le> 1)
     \<and> (\<forall>sec. active_count (fst (snd (deactivate_qr_session e d tok))) sec \<le> 1))
   \<and> (\<forall>t. fst (create_qr_session e d section_id m) = Returns (Some t) \<longrightarrow>
         t = uuid4 e
       \<and> t \<notin> s_session_uuid ` set (attendance_sessions d)
       \<and> attendance_sessions (fst (snd (create_qr_session e d section_id m))) =
           deactivate_section (attendance_sessions d) section_id @
           [\<lparr>s_id = Suc (sessions_id_seq d), s_section_id = section_id, s_session_uuid = t,
             s_expires_at = now e + m * 60000000, s_is_active = True\<rparr>]
       \<and> qr_scans (fst (snd (create_qr_session e d section_id m))) = qr_scans d
       \<and> attendance (fst (snd (create_qr_session e d section_id m))) = attendance d
       \<and> (\<forall>sec. section_id = Some sec \<longrightarrow>
             (\<forall>s \<in> set (deactivate_section (attendance_sessions d) section_id).
                 s_section_id s = Some sec \<longrightarrow> \<not> s_is_active s)
           \<and> active_count (fst (snd (create_qr_session e d section_id m))) sec = 1))
   \<and> (connect_ok e \<and> - 999999999 \<le> m div 1440 \<and> m div 1440 \<le> 999999999
        \<and> 0 \<le> now e + m * 60000000 \<and> now e + m * 60000000 \<le> datetime_max
        \<and> \<not> update_raises e \<and> \<not> insert_session_raises e \<and> \<not> commit_raises e
        \<and> uuid4 e \<notin> s_session_uuid ` set (attendance_sessions d)
      \<longrightarrow> fst (create_qr_session e d section_id m) = Returns (Some (uuid4 e)))"
proof (intro conjI impI allI)
  fix sec assume "\<forall>sec. active_count d sec \<le> 1"
  then have a: "active_count d sec \<le> 1" ..
  from a show "active_count (fst (snd (create_qr_session e d section_id m))) sec \<le> 1"
    by (rule active_count_create)
  from a show "active_count (fst (snd (redeem_qr_code e d tok student_id semester_id))) sec \<le> 1"
    by (simp add: active_count_redeem)
  from a show "active_count (fst (snd (deactivate_qr_session e d tok))) sec \<le> 1"
    by (rule active_count_deactivate)
next
  fix t assume r: "fst (create_qr_session e d section_id m) = Returns (Some t)"
  note tk = create_qr_session_token [OF r]
  from tk show "t = uuid4 e" by simp
  from r show "t \<notin> s_session_uuid ` set (attendance_sessions d)"
    by (rule create_qr_session_fresh)
  from tk show "attendance_sessions (fst (snd (create_qr_session e d section_id m))) =
           deactivate_section (attendance_sessions d) section_id @
           [\<lparr>s_id = Suc (sessions_id_seq d), s_section_id = section_id, s_session_uuid = t,
             s_expires_at = now e + m * 60000000, s_is_active = True\<rparr>]"
    by (simp add: insert_session_def)
  from tk show "qr_scans (fst (snd (create_qr_session e d section_id m))) = qr_scans d"
    by (simp add: insert_session_def)
  from tk show "attendance (fst (snd (create_qr_session e d section_id m))) = attendance d"
    by (simp add: insert_session_def)
  fix sec assume sec: "section_id = Some sec"
  show "\<forall>s \<in> set (deactivate_section (attendance_sessions d) section_id).
                 s_section_id s = Some sec \<longrightarrow> \<not> s_is_active s"
    unfolding sec using deactivate_section_off by blast
  from tk sec show "active_count (fst (snd (create_qr_session e d section_id m))) sec = 1"
    by (simp add: active_count_issue)
next
  assume "connect_ok e \<and> - 999999999 \<le> m div 1440 \<and> m div 1440 \<le> 999999999
        \<and> 0 \<le> now e + m * 60000000 \<and> now e + m * 60000000 \<le> datetime_max
        \<and> \<not> update_raises e \<and> \<not> insert_session_raises e \<and> \<not> commit_raises e
        \<and> uuid4 e \<notin> s_session_uuid ` set (attendance_sessions d)"
  then show "fst (create_qr_session e d section_id m) = Returns (Some (uuid4 e))"
    by (simp add: create_qr_session_ok)
qed

theorem single_active_session_witness:
  "(\<forall>sec. active_count demo_db sec \<le> 1)
   \<and> fst (create_qr_session demo_env demo_db (Some 7) 5) = Returns (Some ''u-2'')
   \<and> attendance_sessions (fst (snd (create_qr_session demo_env demo_db (Some 7) 5))) =
       [demo_session\<lparr>s_is_active := False\<rparr>,
        \<lparr>s_id = 2, s_section_id = Some 7, s_session_uuid = ''u-2'',
          s_expires_at = 1000300000000, s_is_active = True\<rparr>]
   \<and> active_count (fst (snd (create_qr_session demo_env demo_db (Some 7) 5))) 7 = 1
   \<and> (\<forall>sec. active_count (fst (snd (create_qr_session demo_env demo_db (Some 7) 5))) sec \<le> 1)"
  using single_active_session [of demo_db demo_env "Some 7" 5 "''u-1''" 4 1]
  by (simp add: create_defs demo_defs active_count_def)

text \<open>
  C9, as the claim states it, fails: \<^verbatim>\<open>create_qr_session\<close> checks neither argument.
  A duration of 20 minutes, and a missing section identifier, each run the whole
  transaction and return a token.
\<close>

theorem create_out_of_range_counterexample:
  "\<not> (1 \<le> (20::int) \<and> (20::int) \<le> 15)
   \<and> create_qr_session demo_env demo_db (Some 7) 20 =
       (Returns (Some ''u-2''),
        demo_db\<lparr>attendance_sessions :=
                  [demo_session\<lparr>s_is_active := False\<rparr>,
                   \<lparr>s_id = 2, s_section_id = Some 7, s_session_uuid = ''u-2'',
                     s_expires_at = 1001200000000, s_is_active = True\<rparr>],
                sessions_id_seq := 2\<rparr>,
        [(Connect, Ok), (DeactivateSection, Ok), (InsertSession, Ok), (Commit, Ok), (Close, Ok)])
   \<and> create_qr_session demo_env demo_db None 5 =
       (Returns (Some ''u-2''),
        demo_db\<lparr>attendance_sessions :=
                  [demo_session,
                   \<lparr>s_id = 2, s_section_id = None, s_session_uuid = ''u-2'',
                     s_expires_at = 1000300000000, s_is_active = True\<rparr>],
                sessions_id_seq := 2\<rparr>,
        [(Connect, Ok), (DeactivateSection, Ok), (InsertSession, Ok), (Commit, Ok), (Close, Ok)])"
  by (simp add: create_defs demo_defs)

text \<open>
  C9, amended. \<^verbatim>\<open>create_qr_session\<close> validates nothing: for every input the first
  thing it does is open the store connection, and for every section identifier, present
  or missing, and every integer duration for which now plus the duration is a
  representable \<^verbatim>\<open>datetime\<close>, inside or outside 1 to 15, it deactivates, inserts,
  commits and returns the token, provided the connection is obtained, no statement fails
  and the uuid is new. An omitted duration is 5.
\<close>

theorem create_qr_session_no_validation:
  "(\<exists>r rest. snd (snd (create_qr_session e d section_id m)) = (Connect, r) # rest)
   \<and> (connect_ok e \<and> - 999999999 \<le> m div 1440 \<and> m div 1440 \<le> 999999999
        \<and> 0 \<le> now e + m * 60000000 \<and> now e + m * 60000000 \<le> datetime_max
        \<and> \<not> update_raises e \<and> \<not> insert_session_raises e \<and> \<not> commit_raises e
        \<and> uuid4 e \<notin> s_session_uuid ` set (attendance_sessions d)
      \<longrightarrow> create_qr_session e d section_id m =
           (Returns (Some (uuid4 e)),
            insert_session (d\<lparr>attendance_sessions := deactivate_section (attendance_sessions d) section_id\<rparr>)
              section_id (uuid4 e) (now e + m * 60000000),
            [(Connect, Ok), (DeactivateSection, Ok), (InsertSession, Ok), (Commit, Ok), (Close, Ok)]))
   \<and> create_qr_session_default e d section_id = create_qr_session e d section_id 5"
  using create_qr_session_connects [of e d section_id m] create_qr_session_ok [of e m d section_id]
  by (simp add: create_qr_session_default_def)

theorem create_qr_session_no_validation_witness:
  "connect_ok demo_env \<and> - 999999999 \<le> (0::int) div 1440 \<and> (0::int) div 1440 \<le> 999999999
   \<and> 0 \<le> now demo_env + 0 * 60000000 \<and> now demo_env + 0 * 60000000 \<le> datetime_max
   \<and> \<not> update_raises demo_env \<and> \<not> insert_session_raises demo_env \<and> \<not> commit_raises demo_env
   \<and> uuid4 demo_env \<notin> s_session_uuid ` set (attendance_sessions demo_db)
   \<and> \<not> (1 \<le> (0::int) \<and> (0::int) \<le> 15)
   \<and> fst (create_qr_session demo_env demo_db None 0) = Returns (Some ''u-2'')
   \<and> snd (snd (create_qr_session demo_env demo_db None 0)) =
       [(Connect, Ok), (DeactivateSection, Ok), (InsertSession, Ok), (Commit, Ok), (Close, Ok)]"
  using create_qr_session_no_validation [of demo_env demo_db None 0]
  by (simp add: demo_defs datetime_max_def)

section \<open>Deactivating a session\<close>

lemma deactivate_token_rows:
  "list_all2 (\<lambda>s s'. s' = s \<or> (s_session_uuid s = tok \<and> s' = s\<lparr>s_is_active := False\<rparr>))
     rows (deactivate_token rows tok)"
  by (induction rows) (simp_all add: deactivate_token_def)

lemma deactivate_token_off:
  assumes "s' \<in> set (deactivate_token rows tok)" and "s_session_uuid s' = tok"
  shows "\<not> s_is_active s'"
proof -
  from assms(1) obtain s
    where s: "s' = (if s_session_uuid s = tok then s\<lparr>s_is_active := False\<rparr> else s)"
    unfolding deactivate_token_def set_map by (rule imageE)
  show ?thesis
  proof (cases "s_session_uuid s = tok")
    case True
    with s show ?thesis by simp
  next
    case False
    with s assms(2) show ?thesis by simp
  qed
qed

lemma deactivate_qr_session_done:
  assumes "connect_ok e" and "\<not> has_nul tok" and "\<not> update_raises e" and "\<not> commit_raises e"
  shows "deactivate_qr_session e d tok =
     (Returns True, d\<lparr>attendance_sessions := deactivate_token (attendance_sessions d) tok\<rparr>,
      [(Connect, Ok), (DeactivateToken, Ok), (Commit, Ok), (Close, Ok)])"
  using assms by (simp add: deactivate_qr_session_def)

lemma deactivate_qr_session_failed:
  assumes "\<not> (connect_ok e \<and> \<not> has_nul tok \<and> \<not> update_raises e \<and> \<not> commit_raises e)"
  shows "fst (deactivate_qr_session e d tok) \<noteq> Returns True
       \<and> fst (snd (deactivate_qr_session e d tok)) = d"
  using assms by (auto simp: deactivate_qr_session_def)

text \<open>
  C8. A call of \<^verbatim>\<open>deactivate_qr_session\<close> returns \<^verbatim>\<open>True\<close> exactly when the
  connection is obtained, the token has no NUL character and neither the update nor the
  commit fails; the session table is then the old one with \<^verbatim>\<open>is_active\<close> set to
  false in every row that has the token and every other row as it was, so no session with
  that token is active. Whatever the outcome, the scan rows, the attendance rows and the
  session sequence are those from before the call, and every session row is either
  unchanged or is a row with the given token whose only change is \<^verbatim>\<open>is_active\<close> set
  to false; when the call does not return \<^verbatim>\<open>True\<close>, the database is unchanged.
\<close>

theorem deactivate_frame:
  "qr_scans (fst (snd (deactivate_qr_session e d session_uuid))) = qr_scans d
   \<and> attendance (fst (snd (deactivate_qr_session e d session_uuid))) = attendance d
   \<and> sessions_id_seq (fst (snd (deactivate_qr_session e d session_uuid))) = sessions_id_seq d
   \<and> list_all2 (\<lambda>s s'. s' = s \<or> (s_session_uuid s = session_uuid \<and> s' = s\<lparr>s_is_active := False\<rparr>))
        (attendance_sessions d)
        (attendance_sessions (fst (snd (deactivate_qr_session e d session_uuid))))
   \<and> (fst (deactivate_qr_session e d session_uuid) = Returns True \<longrightarrow>
        (\<forall>s' \<in> set (attendance_sessions (fst (snd (deactivate_qr_session e d session_uuid)))).
            s_session_uuid s' = session_uuid \<longrightarrow> \<not> s_is_active s'))
   \<and> (fst (deactivate_qr_session e d session_uuid) \<noteq> Returns True \<longrightarrow>
        fst (snd (deactivate_qr_session e d session_uuid)) = d)
   \<and> ((fst (deactivate_qr_session e d session_uuid) = Returns True)
        = (connect_ok e \<and> \<not> has_nul session_uuid \<and> \<not> update_raises e \<and> \<not> commit_raises e))
   \<and> (fst (deactivate_qr_session e d session_uuid) = Returns True \<longrightarrow>
        attendance_sessions (fst (snd (deactivate_qr_session e d session_uuid))) =
          map (\<lambda>s. if s_session_uuid s = session_uuid then s\<lparr>s_is_active := False\<rparr> else s)
            (attendance_sessions d))"
proof (cases "connect_ok e \<and> \<not> has_nul session_uuid \<and> \<not> update_raises e \<and> \<not> commit_raises e")
  case True
  then have run: "deactivate_qr_session e d session_uuid =
     (Returns True, d\<lparr>attendance_sessions := deactivate_token (attendance_sessions d) session_uuid\<rparr>,
      [(Connect, Ok), (DeactivateToken, Ok), (Commit, Ok), (Close, Ok)])"
    by (simp add: deactivate_qr_session_done)
  have rows: "deactivate_token (attendance_sessions d) session_uuid =
          map (\<lambda>s. if s_session_uuid s = session_uuid then s\<lparr>s_is_active := False\<rparr> else s)
            (attendance_sessions d)"
    by (simp add: deactivate_token_def)
  have off: "\<forall>s' \<in> set (deactivate_token (attendance_sessions d) session_uuid).
            s_session_uuid s' = session_uuid \<longrightarrow> \<not> s_is_active s'"
    using deactivate_token_off [of _ "attendance_sessions d" session_uuid] by blast
  show ?thesis
    unfolding run fst_conv snd_conv
    apply (intro conjI)
    subgoal by simp
    subgoal by simp
    subgoal by simp
    subgoal by (simp add: deactivate_token_rows)
    subgoal using off by simp
    subgoal by simp
    subgoal using True by simp
    subgoal by (simp add: rows)
    done
next
  case False
  from deactivate_qr_session_failed [OF False, of d] False
  show ?thesis by (simp add: list_all2_same)
qed

theorem deactivate_frame_witness:
  "fst (deactivate_qr_session demo_env
          (fst (snd (redeem_qr_code demo_env demo_db ''u-1'' 4 1))) ''u-1'') = Returns True
   \<and> qr_scans (fst (snd (deactivate_qr_session demo_env
          (fst (snd (redeem_qr_code demo_env demo_db ''u-1'' 4 1))) ''u-1'')))
       = [\<lparr>q_session_id = 1, q_student_id = 4\<rparr>]
   \<and> attendance (fst (snd (deactivate_qr_session demo_env
          (fst (snd (redeem_qr_code demo_env demo_db ''u-1'' 4 1))) ''u-1'')))
       = [\<lparr>a_student_id = 4, a_section_id = Some 7, a_semester_id = 1,
           a_date = ''2025-03-01'', a_status = ''Present''\<rparr>]
   \<and> attendance_sessions (fst (snd (deactivate_qr_session demo_env
          (fst (snd (redeem_qr_code demo_env demo_db ''u-1'' 4 1))) ''u-1'')))
       = [demo_session\<lparr>s_is_active := False\<rparr>]"
  using deactivate_frame [of demo_env "fst (snd (redeem_qr_code demo_env demo_db ''u-1'' 4 1))" "''u-1''"]
  by (simp add: run_defs demo_defs deactivate_qr_session_def deactivate_token_def)


end
